theory Spec2Isabelle
  imports Complex_Main "HOL-Library.Sublist"
begin

section \<open>Python values\<close>

text \<open>
  A Python \<open>str\<close> is a sequence of Unicode code points, so it is modelled as a list of
  natural numbers (and not as a list of 8-bit characters): \<open>len\<close>, \<open>endswith\<close> and
  \<open>strip\<close> all work on code points. \<open>str\<close> turns an ASCII literal into such a list.
\<close>

type_synonym py_str = "nat list"

definition str :: "string \<Rightarrow> py_str" where
  "str s = map of_char s"

text \<open>A multi-line literal is its lines with a line feed (code point 10) between them.\<close>

fun join_lines :: "py_str list \<Rightarrow> py_str" where
  "join_lines [] = []"
| "join_lines [l] = l"
| "join_lines (l # ls) = l @ [10] @ join_lines ls"

text \<open>\<open>s.endswith(suf)\<close>.\<close>

definition endswith :: "py_str \<Rightarrow> py_str \<Rightarrow> bool" where
  "endswith s suf = suffix suf s"

text \<open>
  Floats are only stored, passed on and tested for being zero, so a float is its value
  (or one of the three special values that \<open>json.loads\<close> also accepts).
\<close>

datatype py_float = Finite real | PosInf | NegInf | NaN

text \<open>
  The values \<open>json.loads\<close> produces and \<open>json.dumps\<close> consumes. A \<open>dict\<close> is an association
  list; \<open>map_of\<close> looks a key up.
\<close>

datatype json =
    JNull
  | JBool bool
  | JInt int
  | JFloat py_float
  | JStr py_str
  | JList "json list"
  | JDict "(py_str \<times> json) list"

section \<open>The translator object\<close>

definition DEFAULT_SYSTEM_PROMPT :: py_str where
  "DEFAULT_SYSTEM_PROMPT = join_lines
     [str ''You are a translator for Twitch chat messages.'',
      str ''Your task is to translate the given text accurately and naturally.'',
      str ''Rules:'',
      str ''1. Output ONLY the translated text, nothing else.'',
      str ''2. Do not add explanations, quotes, or prefixes.'',
      str ''3. Keep the tone casual and natural, as it's chat messages.'',
      str ''4. Preserve emotes, usernames, and special formatting.'']"

record AITranslator =
  api_url :: py_str
  api_key :: py_str
  model :: py_str
  system_prompt :: py_str
  temperature :: py_float
  debug :: bool

text \<open>
  \<open>AITranslator.__init__\<close>. The parameter \<open>system_prompt\<close> is a string or \<open>None\<close>; the
  test \<open>system_prompt if system_prompt else DEFAULT_SYSTEM_PROMPT\<close> is Python truthiness,
  false for \<open>None\<close> and for the empty string.
\<close>

definition AITranslator_init ::
  "py_str \<Rightarrow> py_str \<Rightarrow> py_str \<Rightarrow> py_str option \<Rightarrow> py_float \<Rightarrow> bool \<Rightarrow> AITranslator" where
  "AITranslator_init a_url a_key a_model a_prompt a_temperature a_debug =
     \<lparr>api_url = a_url, api_key = a_key, model = a_model,
      system_prompt =
        (case a_prompt of
           None \<Rightarrow> DEFAULT_SYSTEM_PROMPT
         | Some p \<Rightarrow> if p \<noteq> [] then p else DEFAULT_SYSTEM_PROMPT),
      temperature = a_temperature, debug = a_debug\<rparr>"

subsection \<open>The request body\<close>

definition triple_quote :: py_str where
  "triple_quote = [34, 34, 34]"

text \<open>The f-string of \<open>_build_request_body\<close>, line by line.\<close>

definition user_message :: "py_str \<Rightarrow> py_str \<Rightarrow> py_str \<Rightarrow> py_str" where
  "user_message text source_lang target_lang = join_lines
     [str ''Source Language: '' @ source_lang,
      str ''Target Language: '' @ target_lang,
      str ''Text to translate:'',
      triple_quote,
      text,
      triple_quote,
      str ''Translation:'']"

definition build_request_body :: "AITranslator \<Rightarrow> py_str \<Rightarrow> py_str \<Rightarrow> py_str \<Rightarrow> json" where
  "build_request_body self text source_lang target_lang =
     JDict
       [(str ''model'', JStr (model self)),
        (str ''messages'', JList
           [JDict [(str ''role'', JStr (str ''system'')),
                   (str ''content'', JStr (system_prompt self))],
            JDict [(str ''role'', JStr (str ''user'')),
                   (str ''content'', JStr (user_message text source_lang target_lang))]]),
        (str ''temperature'', JFloat (temperature self))]"

text \<open>Reading a key of a dictionary, as \<open>d[k]\<close> does when the key is there.\<close>

fun item :: "json \<Rightarrow> py_str \<Rightarrow> json option" where
  "item (JDict kvs) k = map_of kvs k"
| "item _ k = None"

section \<open>Exceptions\<close>

text \<open>
  The exceptions the code meets, all of them instances of Python's \<open>Exception\<close>:
  \<open>asyncio.TimeoutError\<close>, \<open>aiohttp.ClientError\<close> (with its subclasses), the built-in
  errors that indexing and attribute access raise, and any other one. Task cancellation
  and interpreter shutdown are not instances of \<open>Exception\<close>; they are signals of the
  event loop, not results of a call, and are not part of this model. \<open>print\<close> is taken
  not to fail.
\<close>

datatype py_exception =
    TimeoutError
  | ClientError py_str
  | ValueError py_str
  | IndexError
  | KeyError
  | AttributeError
  | TypeError
  | OtherException py_str

section \<open>URL normalisation\<close>

text \<open>The six fields of \<open>urllib.parse.ParseResult\<close>.\<close>

record ParseResult =
  scheme :: py_str
  netloc :: py_str
  path :: py_str
  params :: py_str
  query :: py_str
  fragment :: py_str

text \<open>
  What the code calls but does not define: the two functions of \<open>urllib.parse\<close> and the
  HTTP client. They are parameters of the model. Each library call either raises or
  returns.
\<close>

record http_request =
  url :: py_str
  json_body :: json
  headers :: "(py_str \<times> py_str) list"
  timeout_total :: nat

text \<open>
  A response as the code reads it: \<open>response.status\<close>, and the results of awaiting
  \<open>response.text()\<close> and \<open>response.json()\<close>, which may raise (a body that is not JSON,
  a connection lost while reading).
\<close>

record response =
  status :: int
  text_result :: "py_exception + py_str"
  json_result :: "py_exception + json"

text \<open>
  \<open>response.ok\<close> is a property of aiohttp's \<open>ClientResponse\<close>, defined there as
  \<open>400 > self.status\<close>.
\<close>

definition ok :: "response \<Rightarrow> bool" where
  "ok r = (400 > status r)"

text \<open>Opening the session and posting either raises or yields a response.\<close>

datatype post_result = Raises py_exception | Responds response

record env =
  urlparse :: "py_str \<Rightarrow> py_exception + ParseResult"
  urlunparse :: "ParseResult \<Rightarrow> py_exception + py_str"
  post :: "http_request \<Rightarrow> post_result"

text \<open>The body of the \<open>try\<close> block of \<open>_get_api_url\<close>; \<open>Inl\<close> is an exception raised in it.\<close>

definition get_api_url_try :: "env \<Rightarrow> AITranslator \<Rightarrow> py_exception + py_str" where
  "get_api_url_try lib self =
     (case urlparse lib (api_url self) of
        Inl e \<Rightarrow> Inl e
      | Inr parsed \<Rightarrow>
          if \<not> endswith (path parsed) (str ''/chat/completions'') then
            urlunparse lib
              \<lparr>scheme = scheme parsed,
               netloc = netloc parsed,
               path = (if endswith (path parsed) (str ''/'')
                       then path parsed @ str ''chat/completions''
                       else path parsed @ str ''/chat/completions''),
               params = params parsed,
               query = query parsed,
               fragment = fragment parsed\<rparr>
          else Inr (api_url self))"

text \<open>\<open>_get_api_url\<close>: \<open>except Exception: pass\<close> leaves \<open>target_url\<close> at \<open>self.api_url\<close>.\<close>

definition get_api_url :: "env \<Rightarrow> AITranslator \<Rightarrow> py_str" where
  "get_api_url lib self =
     (case get_api_url_try lib self of
        Inl e \<Rightarrow> api_url self
      | Inr target_url \<Rightarrow> target_url)"

section \<open>Reading the response\<close>

text \<open>\<open>x.get(k, d)\<close>: only a dictionary has the method.\<close>

fun py_get :: "json \<Rightarrow> py_str \<Rightarrow> json \<Rightarrow> py_exception + json" where
  "py_get (JDict kvs) k d = Inr (case map_of kvs k of Some v \<Rightarrow> v | None \<Rightarrow> d)"
| "py_get _ k d = Inl AttributeError"

text \<open>
  \<open>x[0]\<close>: the first element of a list or string, \<open>IndexError\<close> when it is empty,
  \<open>KeyError\<close> on a dictionary (the keys of a JSON object are strings), \<open>TypeError\<close> on
  a value that is not subscriptable.
\<close>

fun py_first :: "json \<Rightarrow> py_exception + json" where
  "py_first (JList []) = Inl IndexError"
| "py_first (JList (v # vs)) = Inr v"
| "py_first (JStr []) = Inl IndexError"
| "py_first (JStr (c # cs)) = Inr (JStr [c])"
| "py_first (JDict kvs) = Inl KeyError"
| "py_first _ = Inl TypeError"

text \<open>Python truthiness, as \<open>not translated_text\<close> tests it.\<close>

fun truthy :: "json \<Rightarrow> bool" where
  "truthy JNull = False"
| "truthy (JBool b) = b"
| "truthy (JInt i) = (i \<noteq> 0)"
| "truthy (JFloat f) = (f \<noteq> Finite 0)"
| "truthy (JStr s) = (s \<noteq> [])"
| "truthy (JList vs) = (vs \<noteq> [])"
| "truthy (JDict kvs) = (kvs \<noteq> [])"

text \<open>The code points \<open>str.strip()\<close> removes: those for which \<open>str.isspace\<close> holds.\<close>

definition isspace :: "nat \<Rightarrow> bool" where
  "isspace c \<longleftrightarrow>
     (9 \<le> c \<and> c \<le> 13) \<or> (28 \<le> c \<and> c \<le> 32) \<or> c = 133 \<or> c = 160 \<or> c = 5760 \<or>
     (8192 \<le> c \<and> c \<le> 8202) \<or> c = 8232 \<or> c = 8233 \<or> c = 8239 \<or> c = 8287 \<or> c = 12288"

definition strip :: "py_str \<Rightarrow> py_str" where
  "strip s = rev (dropWhile isspace (rev (dropWhile isspace s)))"

text \<open>\<open>x.strip()\<close>: only a string has the method.\<close>

fun py_strip :: "json \<Rightarrow> py_exception + py_str" where
  "py_strip (JStr s) = Inr (strip s)"
| "py_strip _ = Inl AttributeError"

text \<open>\<open>data.get('choices', [{}])[0].get('message', {}).get('content', '')\<close>\<close>

definition get_content :: "json \<Rightarrow> py_exception + json" where
  "get_content data =
     (case py_get data (str ''choices'') (JList [JDict []]) of
        Inl e \<Rightarrow> Inl e
      | Inr choices \<Rightarrow>
          (case py_first choices of
             Inl e \<Rightarrow> Inl e
           | Inr choice \<Rightarrow>
               (case py_get choice (str ''message'') (JDict []) of
                  Inl e \<Rightarrow> Inl e
                | Inr message \<Rightarrow> py_get message (str ''content'') (JStr []))))"

section \<open>translate\<close>

text \<open>Each \<open>print\<close> of the module, with the values it interpolates.\<close>

datatype log_line =
    InvalidApiKey
  | RateLimitExceeded
  | ApiServerError int
  | ApiError int py_str
  | EmptyResponse
  | RequestTimeout
  | NetworkError py_exception
  | UnexpectedError py_exception
  | NotInitialized

text \<open>The prints of the method are guarded by \<open>self.debug\<close>.\<close>

definition debug_print :: "AITranslator \<Rightarrow> log_line \<Rightarrow> log_line list" where
  "debug_print self l = (if debug self then [l] else [])"

text \<open>
  What the \<open>with\<close> block does with the result of the post: \<open>Inl\<close> is an exception leaving the
  block, \<open>Inr\<close> the returned string with the lines printed before returning.
\<close>

definition translate_try :: "AITranslator \<Rightarrow> post_result \<Rightarrow> py_exception + py_str \<times> log_line list" where
  "translate_try self res =
     (case res of
        Raises e \<Rightarrow> Inl e
      | Responds r \<Rightarrow>
          if status r = 401 then Inr ([], debug_print self InvalidApiKey)
          else if status r = 429 then Inr ([], debug_print self RateLimitExceeded)
          else if status r \<ge> 500 then Inr ([], debug_print self (ApiServerError (status r)))
          else if \<not> ok r then
            (case text_result r of
               Inl e \<Rightarrow> Inl e
             | Inr error_text \<Rightarrow> Inr ([], debug_print self (ApiError (status r) error_text)))
          else
            (case json_result r of
               Inl e \<Rightarrow> Inl e
             | Inr data \<Rightarrow>
                 (case get_content data of
                    Inl e \<Rightarrow> Inl e
                  | Inr translated_text \<Rightarrow>
                      if \<not> truthy translated_text then Inr ([], debug_print self EmptyResponse)
                      else
                        (case py_strip translated_text of
                           Inl e \<Rightarrow> Inl e
                         | Inr s \<Rightarrow> Inr (s, [])))))"

text \<open>The request handed to \<open>session.post\<close>.\<close>

definition make_request :: "env \<Rightarrow> AITranslator \<Rightarrow> py_str \<Rightarrow> py_str \<Rightarrow> py_str \<Rightarrow> http_request" where
  "make_request lib self text source_lang target_lang =
     \<lparr>url = get_api_url lib self,
      json_body = build_request_body self text source_lang target_lang,
      headers = [(str ''Content-Type'', str ''application/json''),
                 (str ''Authorization'', str ''Bearer '' @ api_key self)],
      timeout_total = 30\<rparr>"

text \<open>
  A call of \<open>translate\<close> is observed through the string it returns, the lines it prints and
  the requests it posts.
\<close>

record call =
  returned :: py_str
  printed :: "log_line list"
  posted :: "http_request list"

text \<open>
  \<open>AITranslator.translate\<close>. The three \<open>except\<close> clauses are tried in the order of the
  source.
\<close>

definition translate :: "env \<Rightarrow> AITranslator \<Rightarrow> py_str \<Rightarrow> py_str \<Rightarrow> py_str \<Rightarrow> call" where
  "translate lib self text source_lang target_lang =
     (if text = [] then \<lparr>returned = [], printed = [], posted = []\<rparr>
      else
        let request = make_request lib self text source_lang target_lang in
        (case translate_try self (post lib request) of
           Inr (s, out) \<Rightarrow> \<lparr>returned = s, printed = out, posted = [request]\<rparr>
         | Inl e \<Rightarrow>
             (case e of
                TimeoutError \<Rightarrow>
                  \<lparr>returned = [], printed = debug_print self RequestTimeout, posted = [request]\<rparr>
              | ClientError m \<Rightarrow>
                  \<lparr>returned = [], printed = debug_print self (NetworkError e), posted = [request]\<rparr>
              | _ \<Rightarrow>
                  \<lparr>returned = [], printed = debug_print self (UnexpectedError e),
                   posted = [request]\<rparr>)))"

subsection \<open>The module-level instance\<close>

text \<open>
  The global \<open>_translator\<close> is \<open>None\<close> until \<open>init_translator\<close> assigns it; the state of the
  module is its value.
\<close>

type_synonym module_state = "AITranslator option"

definition initial_state :: module_state where
  "initial_state = None"


text \<open>The module-level function \<open>translate\<close>; its print is not guarded by a debug flag.\<close>

definition module_translate :: "env \<Rightarrow> module_state \<Rightarrow> py_str \<Rightarrow> py_str \<Rightarrow> py_str \<Rightarrow> call" where
  "module_translate lib translator text source_lang target_lang =
     (case translator of
        None \<Rightarrow> \<lparr>returned = [], printed = [NotInitialized], posted = []\<rparr>
      | Some self \<Rightarrow> translate lib self text source_lang target_lang)"

section \<open>A reference library\<close>

text \<open>
  \<open>urlparse\<close> and \<open>urlunparse\<close> belong to Python's standard library, not to this program.
  The theorems below hold for every pair of functions in their place. To run the model on
  URLs, this section transcribes the two functions as CPython 3.11 defines them in
  \<open>urllib/parse.py\<close>. One simplification: of the checks that make \<open>urlsplit\<close> raise
  \<open>ValueError\<close>, only the test for an unmatched bracket is kept; the validation of a
  bracketed host as an IP literal and the NFKC check of a non-ASCII host are left out, so
  this parser accepts some URLs that the library rejects.
\<close>

definition ascii_alpha :: "nat \<Rightarrow> bool" where
  "ascii_alpha c \<longleftrightarrow> (97 \<le> c \<and> c \<le> 122) \<or> (65 \<le> c \<and> c \<le> 90)"

definition scheme_chars :: "nat \<Rightarrow> bool" where
  "scheme_chars c \<longleftrightarrow> ascii_alpha c \<or> (48 \<le> c \<and> c \<le> 57) \<or> c = 43 \<or> c = 45 \<or> c = 46"

text \<open>\<open>lower()\<close> on a string of scheme characters.\<close>

definition ascii_lower :: "py_str \<Rightarrow> py_str" where
  "ascii_lower s = map (\<lambda>c. if 65 \<le> c \<and> c \<le> 90 then c + 32 else c) s"

text \<open>\<open>s.split(c, 1)\<close> for a \<open>c\<close> that occurs in \<open>s\<close>.\<close>

definition split_once :: "nat \<Rightarrow> py_str \<Rightarrow> py_str \<times> py_str" where
  "split_once c s = (takeWhile (\<lambda>x. x \<noteq> c) s, drop 1 (dropWhile (\<lambda>x. x \<noteq> c) s))"

definition uses_params :: "py_str list" where
  "uses_params =
     [[], str ''ftp'', str ''hdl'', str ''prospero'', str ''http'', str ''imap'',
      str ''https'', str ''shttp'', str ''rtsp'', str ''rtsps'', str ''rtspu'', str ''sip'',
      str ''sips'', str ''mms'', str ''sftp'', str ''tel'']"

definition uses_netloc :: "py_str list" where
  "uses_netloc =
     [[], str ''ftp'', str ''http'', str ''gopher'', str ''nntp'', str ''telnet'',
      str ''imap'', str ''wais'', str ''file'', str ''mms'', str ''https'', str ''shttp'',
      str ''snews'', str ''prospero'', str ''rtsp'', str ''rtsps'', str ''rtspu'',
      str ''rsync'', str ''svn'', str ''svn+ssh'', str ''sftp'', str ''nfs'', str ''git'',
      str ''git+ssh'', str ''ws'', str ''wss'']"

text \<open>The network location ends at the first of \<open>/\<close>, \<open>?\<close> and \<open>#\<close>.\<close>

definition netloc_char :: "nat \<Rightarrow> bool" where
  "netloc_char c \<longleftrightarrow> c \<noteq> 47 \<and> c \<noteq> 63 \<and> c \<noteq> 35"

text \<open>
  \<open>urlsplit\<close>: strip leading control characters and spaces, drop tab, carriage return and
  line feed, split off a scheme, a network location after \<open>//\<close>, a fragment after \<open>#\<close> and a
  query after \<open>?\<close>. The result is (scheme, netloc, path, query, fragment).
\<close>

definition py_urlsplit ::
  "py_str \<Rightarrow> py_exception + py_str \<times> py_str \<times> py_str \<times> py_str \<times> py_str" where
  "py_urlsplit u0 =
     (let u1 = filter (\<lambda>c. c \<noteq> 9 \<and> c \<noteq> 13 \<and> c \<noteq> 10) (dropWhile (\<lambda>c. c \<le> 32) u0);
          pre = takeWhile (\<lambda>c. c \<noteq> 58) u1;
          has_scheme = (58 \<in> set u1 \<and>
                        (case pre of [] \<Rightarrow> False | c # cs \<Rightarrow> ascii_alpha c) \<and>
                        list_all scheme_chars pre);
          sch = (if has_scheme then ascii_lower pre else []);
          u2 = (if has_scheme then drop (length pre + 1) u1 else u1);
          has_netloc = (take 2 u2 = str ''//'');
          nl = (if has_netloc then takeWhile netloc_char (drop 2 u2) else []);
          u3 = (if has_netloc then dropWhile netloc_char (drop 2 u2) else u2)
      in if (91 \<in> set nl \<and> 93 \<notin> set nl) \<or> (93 \<in> set nl \<and> 91 \<notin> set nl)
         then Inl (ValueError (str ''Invalid IPv6 URL''))
         else
           let (u4, frag) = (if 35 \<in> set u3 then split_once 35 u3 else (u3, []));
               (u5, qry) = (if 63 \<in> set u4 then split_once 63 u4 else (u4, []))
           in Inr (sch, nl, u5, qry, frag))"

text \<open>\<open>_splitparams\<close>: the parameters follow the first \<open>;\<close> of the last path segment.\<close>

definition splitparams :: "py_str \<Rightarrow> py_str \<times> py_str" where
  "splitparams p =
     (if 47 \<in> set p then
        let k = length p - length (takeWhile (\<lambda>c. c \<noteq> 47) (rev p)) - 1;
            rest = drop k p
        in if 59 \<notin> set rest then (p, [])
           else
             let i = k + length (takeWhile (\<lambda>c. c \<noteq> 59) rest)
             in (take i p, drop (i + 1) p)
      else
        let i = length (takeWhile (\<lambda>c. c \<noteq> 59) p)
        in (take i p, drop (i + 1) p))"

definition py_urlparse :: "py_str \<Rightarrow> py_exception + ParseResult" where
  "py_urlparse u =
     (case py_urlsplit u of
        Inl e \<Rightarrow> Inl e
      | Inr (sch, nl, p, qry, frag) \<Rightarrow>
          let (p', prm) = (if sch \<in> set uses_params \<and> 59 \<in> set p then splitparams p
                           else (p, []))
          in Inr \<lparr>scheme = sch, netloc = nl, path = p', params = prm, query = qry,
                  fragment = frag\<rparr>)"

text \<open>\<open>urlunparse\<close>, with \<open>urlunsplit\<close> inlined.\<close>

definition py_urlunparse :: "ParseResult \<Rightarrow> py_exception + py_str" where
  "py_urlunparse r =
     (let u1 = (if params r \<noteq> [] then path r @ [59] @ params r else path r);
          u2 = (if netloc r \<noteq> [] \<or> (scheme r \<noteq> [] \<and> scheme r \<in> set uses_netloc) \<or>
                   take 2 u1 = str ''//''
                then str ''//'' @ netloc r @
                       (if u1 \<noteq> [] \<and> take 1 u1 \<noteq> str ''/'' then str ''/'' @ u1 else u1)
                else u1);
          u3 = (if scheme r \<noteq> [] then scheme r @ str '':'' @ u2 else u2);
          u4 = (if query r \<noteq> [] then u3 @ str ''?'' @ query r else u3);
          u5 = (if fragment r \<noteq> [] then u4 @ str ''#'' @ fragment r else u4)
      in Inr u5)"

text \<open>The reference library around a given HTTP client.\<close>

definition py_env :: "(http_request \<Rightarrow> post_result) \<Rightarrow> env" where
  "py_env client = \<lparr>urlparse = py_urlparse, urlunparse = py_urlunparse, post = client\<rparr>"

section \<open>Observations and example values\<close>

text \<open>The list under the key \<open>messages\<close> of a request body.\<close>

definition messages :: "json \<Rightarrow> json list" where
  "messages body = (case item body (str ''messages'') of Some (JList ms) \<Rightarrow> ms | _ \<Rightarrow> [])"

text \<open>
  The response shape as the specification words it, for comparison with \<open>get_content\<close>:
  \<open>choices[0].message.content\<close> is present when the body is an object whose \<open>choices\<close> is a
  non-empty array, whose first element is an object with a \<open>message\<close>, which is an object
  with a \<open>content\<close>.
\<close>

definition spec_content :: "json \<Rightarrow> json option" where
  "spec_content data =
     (case item data (str ''choices'') of
        Some (JList (choice # rest)) \<Rightarrow>
          (case item choice (str ''message'') of
             Some message \<Rightarrow> item message (str ''content'')
           | None \<Rightarrow> None)
      | _ \<Rightarrow> None)"


text \<open>A translator, three HTTP clients and some responses to run the model on.\<close>

definition example_translator :: "py_str \<Rightarrow> bool \<Rightarrow> AITranslator" where
  "example_translator a_url a_debug =
     AITranslator_init a_url (str ''sk-test'') (str ''gpt-4o-mini'') None (Finite (3 / 10)) a_debug"

definition no_network :: "http_request \<Rightarrow> post_result" where
  "no_network request = Raises (ClientError (str ''Cannot connect to host''))"


definition reply :: "response \<Rightarrow> http_request \<Rightarrow> post_result" where
  "reply r request = Responds r"

definition completion :: "json \<Rightarrow> json" where
  "completion c =
     JDict [(str ''choices'', JList [JDict [(str ''message'', JDict [(str ''content'', c)])]])]"

definition konnichiwa :: py_str where
  "konnichiwa = [12371, 12435, 12395, 12385, 12399]"

definition greeting_response :: response where
  \<open>greeting_response =
     \<lparr>status = 200,
      text_result = Inr (str ''{"choices":[{"message":{"content":"  '' @ konnichiwa @ str ''  "}}]}''),
      json_result = Inr (completion (JStr ([32, 32] @ konnichiwa @ [32, 32])))\<rparr>\<close>

definition empty_choices_response :: response where
  \<open>empty_choices_response =
     \<lparr>status = 200,
      text_result = Inr (str ''{"choices":[]}''),
      json_result = Inr (JDict [(str ''choices'', JList [])])\<rparr>\<close>


definition unauthorized_response :: response where
  "unauthorized_response =
     \<lparr>status = 401,
      text_result = Inr (str ''Unauthorized''),
      json_result = Inl (ClientError (str ''unexpected mimetype''))\<rparr>"

definition multiple_choices_response :: response where
  \<open>multiple_choices_response =
     \<lparr>status = 300,
      text_result = Inr (str ''{"choices":[{"message":{"content":"hi"}}]}''),
      json_result = Inr (completion (JStr (str ''hi'')))\<rparr>\<close>

section \<open>Properties\<close>

subsection \<open>Auxiliary facts\<close>


lemmas py_lib_defs =
  py_env_def py_urlparse_def py_urlsplit_def py_urlunparse_def splitparams_def split_once_def
  ascii_alpha_def scheme_chars_def ascii_lower_def netloc_char_def uses_params_def
  uses_netloc_def






lemma get_api_url_any_error:
  "get_api_url_try lib self = Inl e \<Longrightarrow> get_api_url lib self = api_url self"
  by (simp add: get_api_url_def)



lemma strip_Nil: "strip [] = []"
  by (simp add: strip_def)

lemma content_refines:
  "(case get_content data of
      Inl e \<Rightarrow> []
    | Inr v \<Rightarrow> if \<not> truthy v then [] else (case py_strip v of Inl e \<Rightarrow> [] | Inr s \<Rightarrow> s))
   = (case spec_content data of Some (JStr s) \<Rightarrow> strip s | _ \<Rightarrow> [])"
proof (cases data)
  case (JDict kvs)
  show ?thesis
  proof (cases "map_of kvs (str ''choices'')")
    case None
    with JDict show ?thesis
      by (simp add: get_content_def spec_content_def str_def)
  next
    case (Some choices)
    show ?thesis
    proof (cases "py_first choices")
      case (Inl e)
      with JDict Some show ?thesis
        by (cases choices rule: py_first.cases)
           (simp_all add: get_content_def spec_content_def)
    next
      case (Inr choice)
      show ?thesis
      proof (cases "\<exists>rest. choices = JList (choice # rest)")
        case True
        then obtain rest where ch: "choices = JList (choice # rest)" by blast
        show ?thesis
        proof (cases choice)
          case (JDict ckvs)
          note c = this
          show ?thesis
          proof (cases "map_of ckvs (str ''message'')")
            case None
            with \<open>data = JDict kvs\<close> Some ch c show ?thesis
              by (simp add: get_content_def spec_content_def str_def)
          next
            case (Some message)
            note m = this
            show ?thesis
            proof (cases message)
              case (JDict mkvs)
              with \<open>data = JDict kvs\<close> \<open>map_of kvs (str ''choices'') = Some choices\<close> ch c m
              show ?thesis
                by (cases "map_of mkvs (str ''content'')")
                   (auto simp: get_content_def spec_content_def strip_Nil
                         split: json.splits)
            qed (use \<open>data = JDict kvs\<close> \<open>map_of kvs (str ''choices'') = Some choices\<close> ch c m
                 in \<open>simp_all add: get_content_def spec_content_def\<close>)
          qed
        qed (use \<open>data = JDict kvs\<close> Some ch in \<open>simp_all add: get_content_def spec_content_def\<close>)
      next
        case False
        with Inr obtain c cs where s: "choices = JStr (c # cs)" "choice = JStr [c]"
          by (cases choices rule: py_first.cases) auto
        with JDict Some show ?thesis
          by (simp add: get_content_def spec_content_def)
      qed
    qed
  qed
qed (simp_all add: get_content_def spec_content_def)

lemma translate_try_success:
  assumes "200 \<le> status r" and "status r \<le> 299"
  shows "translate_try self (Responds r) =
           (case json_result r of
              Inl e \<Rightarrow> Inl e
            | Inr data \<Rightarrow>
                (case get_content data of
                   Inl e \<Rightarrow> Inl e
                 | Inr v \<Rightarrow>
                     if \<not> truthy v then Inr ([], debug_print self EmptyResponse)
                     else (case py_strip v of Inl e \<Rightarrow> Inl e | Inr s \<Rightarrow> Inr (s, []))))"
  using assms by (simp add: translate_try_def ok_def)

lemma returned_translate:
  "returned (translate lib self text source_lang target_lang) =
     (if text = [] then []
      else case translate_try self (post lib (make_request lib self text source_lang target_lang)) of
             Inl e \<Rightarrow> []
           | Inr (s, out) \<Rightarrow> s)"
  by (simp add: translate_def Let_def split: sum.splits prod.splits py_exception.splits)

subsection \<open>Failures of the call\<close>



subsection \<open>Successful responses\<close>

text \<open>
  Claim C2. For a response with a status from 200 to 299: when the body decodes to JSON
  whose \<open>choices[0].message.content\<close> is a non-empty string, \<open>translate\<close> returns that string
  with the whitespace at both ends removed; when the body does not decode, or the content
  is missing at any level, empty, or not a string, \<open>translate\<close> returns the empty string.
\<close>

theorem success_response_content:
  assumes "text \<noteq> []"
    and "post lib (make_request lib self text source_lang target_lang) = Responds r"
    and "200 \<le> status r" and "status r \<le> 299"
  shows "returned (translate lib self text source_lang target_lang) =
           (case json_result r of
              Inl e \<Rightarrow> []
            | Inr data \<Rightarrow> (case spec_content data of Some (JStr s) \<Rightarrow> strip s | _ \<Rightarrow> []))"
proof (cases "json_result r")
  case (Inl e)
  with assms show ?thesis
    by (simp add: returned_translate translate_try_success)
next
  case (Inr data)
  have "returned (translate lib self text source_lang target_lang) =
          (case get_content data of
             Inl e \<Rightarrow> []
           | Inr v \<Rightarrow> if \<not> truthy v then []
                      else (case py_strip v of Inl e \<Rightarrow> [] | Inr s \<Rightarrow> s))"
    using assms Inr
    by (simp add: returned_translate translate_try_success split: sum.splits)
  with Inr show ?thesis by (simp add: content_refines)
qed

theorem success_response_content_witness:
  "str ''hello'' \<noteq> []
   \<and> post (py_env (reply greeting_response))
       (make_request (py_env (reply greeting_response))
          (example_translator (str ''https://api.example.com/v1'') False)
          (str ''hello'') (str ''en'') (str ''ja'')) = Responds greeting_response
   \<and> 200 \<le> status greeting_response \<and> status greeting_response \<le> 299
   \<and> returned (translate (py_env (reply greeting_response))
        (example_translator (str ''https://api.example.com/v1'') False)
        (str ''hello'') (str ''en'') (str ''ja'')) = konnichiwa"
proof -
  have 1: "str ''hello'' \<noteq> []"
    by (simp add: str_def)
  have 2: "post (py_env (reply greeting_response))
       (make_request (py_env (reply greeting_response))
          (example_translator (str ''https://api.example.com/v1'') False)
          (str ''hello'') (str ''en'') (str ''ja'')) = Responds greeting_response"
    by (simp add: py_env_def reply_def)
  have 3: "200 \<le> status greeting_response" and 4: "status greeting_response \<le> 299"
    by (simp_all add: greeting_response_def)
  have 5: "(case json_result greeting_response of
              Inl e \<Rightarrow> []
            | Inr data \<Rightarrow> (case spec_content data of Some (JStr s) \<Rightarrow> strip s | _ \<Rightarrow> []))
           = konnichiwa"
    by (simp add: greeting_response_def completion_def spec_content_def str_def strip_def
          isspace_def konnichiwa_def)
  from success_response_content [OF 1 2 3 4] 1 2 3 4 5 show ?thesis
    by simp
qed

subsection \<open>Error statuses\<close>

text \<open>
  Claim C3, as amended. For a response whose status is 400 or above (401, 429, any
  status from 500 on, or any other status for which \<open>response.ok\<close> is false),
  \<open>translate\<close> returns the empty string. The checks are made in the order 401, 429,
  500 and above, not ok, and the first that matches decides which line is printed.
\<close>

theorem error_status_empty:
  assumes "text \<noteq> []"
    and "post lib (make_request lib self text source_lang target_lang) = Responds r"
    and "400 \<le> status r"
  shows "returned (translate lib self text source_lang target_lang) = []
     \<and> (status r = 401 \<longrightarrow>
          printed (translate lib self text source_lang target_lang)
            = debug_print self InvalidApiKey)
     \<and> (status r = 429 \<longrightarrow>
          printed (translate lib self text source_lang target_lang)
            = debug_print self RateLimitExceeded)
     \<and> (500 \<le> status r \<longrightarrow>
          printed (translate lib self text source_lang target_lang)
            = debug_print self (ApiServerError (status r)))
     \<and> (status r \<noteq> 401 \<and> status r \<noteq> 429 \<and> status r < 500 \<and> text_result r = Inr error_text \<longrightarrow>
          printed (translate lib self text source_lang target_lang)
            = debug_print self (ApiError (status r) error_text))"
  using assms
  by (auto simp: translate_def translate_try_def ok_def Let_def
           split: sum.splits py_exception.splits)

theorem error_status_empty_witness:
  "str ''hello'' \<noteq> []
   \<and> post (py_env (reply unauthorized_response))
       (make_request (py_env (reply unauthorized_response))
          (example_translator (str ''https://api.example.com/v1'') True)
          (str ''hello'') (str ''en'') (str ''ja'')) = Responds unauthorized_response
   \<and> 400 \<le> status unauthorized_response
   \<and> returned (translate (py_env (reply unauthorized_response))
        (example_translator (str ''https://api.example.com/v1'') True)
        (str ''hello'') (str ''en'') (str ''ja'')) = []
   \<and> printed (translate (py_env (reply unauthorized_response))
        (example_translator (str ''https://api.example.com/v1'') True)
        (str ''hello'') (str ''en'') (str ''ja'')) = [InvalidApiKey]"
proof -
  have 1: "str ''hello'' \<noteq> []"
    by (simp add: str_def)
  have 2: "post (py_env (reply unauthorized_response))
       (make_request (py_env (reply unauthorized_response))
          (example_translator (str ''https://api.example.com/v1'') True)
          (str ''hello'') (str ''en'') (str ''ja'')) = Responds unauthorized_response"
    by (simp add: py_env_def reply_def)
  have 3: "400 \<le> status unauthorized_response"
    by (simp add: unauthorized_response_def)
  have 4: "status unauthorized_response = 401"
    by (simp add: unauthorized_response_def)
  have 5: "debug_print (example_translator (str ''https://api.example.com/v1'') True)
             InvalidApiKey = [InvalidApiKey]"
    by (simp add: debug_print_def example_translator_def AITranslator_init_def)
  from error_status_empty [OF 1 2 3, of "[]"] 1 2 3 4 5 show ?thesis
    by simp
qed

text \<open>
  Claim C3 as it was stated fails: a status below 400 that is not a 2xx status passes
  all four checks, since \<open>response.ok\<close> is true for it, and the body is read as for a
  success. Here the status is 300 and the content \<open>hi\<close> is returned.
\<close>

theorem non_2xx_status_counterexample:
  "status multiple_choices_response = 300
   \<and> \<not> (200 \<le> status multiple_choices_response \<and> status multiple_choices_response \<le> 299)
   \<and> returned (translate (py_env (reply multiple_choices_response))
        (example_translator (str ''https://api.example.com/v1'') False)
        (str ''hello'') (str ''en'') (str ''ja'')) = str ''hi''
   \<and> str ''hi'' \<noteq> []"
  by (simp add: returned_translate py_env_def reply_def translate_try_def ok_def
        multiple_choices_response_def completion_def get_content_def str_def strip_def
        isspace_def)

subsection \<open>Empty text\<close>

text \<open>
  Claim C4. When the text is the empty string, \<open>translate\<close> returns the empty string at
  once: nothing is posted (and nothing printed), through the method and through the
  module-level function alike.
\<close>

theorem empty_text_no_call:
  "translate lib self [] source_lang target_lang = \<lparr>returned = [], printed = [], posted = []\<rparr>
   \<and> module_translate lib (Some self) [] source_lang target_lang =
       \<lparr>returned = [], printed = [], posted = []\<rparr>"
  by (simp add: translate_def module_translate_def)

theorem empty_text_no_call_witness:
  "posted (translate (py_env no_network)
     (example_translator (str ''https://api.example.com/v1'') True) [] (str ''en'') (str ''ja''))
     = []
   \<and> returned (translate (py_env no_network)
     (example_translator (str ''https://api.example.com/v1'') True) [] (str ''en'') (str ''ja''))
     = []"
  using empty_text_no_call [of "py_env no_network"
      "example_translator (str ''https://api.example.com/v1'') True" "str ''en''" "str ''ja''"]
  by simp

subsection \<open>URL normalisation\<close>






text \<open>
  Claim C7. Normalisation never raises. When \<open>urlparse\<close> raises, whatever the exception,
  the exception does leave the \<open>try\<close> block, and \<open>_get_api_url\<close> returns the configured URL
  unmodified.
\<close>

theorem normalization_falls_back:
  assumes "urlparse lib (api_url self) = Inl e"
  shows "get_api_url_try lib self = Inl e \<and> get_api_url lib self = api_url self"
  using assms by (simp add: get_api_url_def get_api_url_try_def)

theorem normalization_falls_back_witness:
  "py_urlparse (str ''http://[::1/v1'') = Inl (ValueError (str ''Invalid IPv6 URL''))
   \<and> get_api_url (py_env no_network) (example_translator (str ''http://[::1/v1'') False)
       = str ''http://[::1/v1''"
proof -
  have p: "py_urlparse (str ''http://[::1/v1'') = Inl (ValueError (str ''Invalid IPv6 URL''))"
    by (simp add: py_lib_defs str_def Let_def)
  then have "urlparse (py_env no_network)
                (api_url (example_translator (str ''http://[::1/v1'') False))
             = Inl (ValueError (str ''Invalid IPv6 URL''))"
    by (simp add: py_env_def example_translator_def AITranslator_init_def)
  from normalization_falls_back [OF this] p show ?thesis
    by (simp add: example_translator_def AITranslator_init_def)
qed

subsection \<open>The request body\<close>



subsection \<open>The module-level instance\<close>

text \<open>
  Claim C9. Before \<open>init_translator\<close> has been called, the module-level \<open>translate\<close>
  returns the empty string, prints the line that says the translator is not
  initialized, posts nothing and does not raise, for every input.
\<close>

theorem uninitialized_translate:
  "module_translate lib initial_state text source_lang target_lang =
     \<lparr>returned = [], printed = [NotInitialized], posted = []\<rparr>"
  by (simp add: module_translate_def initial_state_def)

theorem uninitialized_translate_witness:
  "returned (module_translate (py_env no_network) initial_state
     (str ''hello'') (str ''en'') (str ''ja'')) = []
   \<and> printed (module_translate (py_env no_network) initial_state
     (str ''hello'') (str ''en'') (str ''ja'')) = [NotInitialized]"
  using uninitialized_translate [of "py_env no_network" "str ''hello''" "str ''en''" "str ''ja''"]
  by simp

subsection \<open>The default system prompt\<close>



subsection \<open>The examples of the specification\<close>

lemma example_base_url_without_slash:
  "get_api_url (py_env no_network) (example_translator (str ''https://api.example.com/v1'') False)
     = str ''https://api.example.com/v1/chat/completions''"
  by (simp add: get_api_url_def get_api_url_try_def py_lib_defs example_translator_def
        AITranslator_init_def str_def endswith_def suffix_to_prefix Let_def)

lemma example_query_and_fragment_kept:
  "get_api_url (py_env no_network)
     (example_translator (str ''https://api.example.com/v1?key=1#top'') False)
     = str ''https://api.example.com/v1/chat/completions?key=1#top''"
  by (simp add: get_api_url_def get_api_url_try_def py_lib_defs example_translator_def
        AITranslator_init_def str_def endswith_def suffix_to_prefix Let_def)

lemma example_empty_choices:
  "translate (py_env (reply empty_choices_response))
     (example_translator (str ''https://api.example.com/v1'') True)
     (str ''hello'') (str ''en'') (str ''ja'')
   = \<lparr>returned = [], printed = [UnexpectedError IndexError],
      posted = [make_request (py_env (reply empty_choices_response))
        (example_translator (str ''https://api.example.com/v1'') True)
        (str ''hello'') (str ''en'') (str ''ja'')]\<rparr>"
  by (simp add: translate_def translate_try_def py_env_def reply_def ok_def get_content_def
        empty_choices_response_def debug_print_def example_translator_def AITranslator_init_def
        str_def Let_def)

lemma example_network_error:
  "returned (translate (py_env no_network)
     (example_translator (str ''https://api.example.com/v1'') False)
     (str ''hello'') (str ''en'') (str ''ja'')) = []"
  by (simp add: returned_translate translate_try_def py_env_def no_network_def)

end
